theory Spec2Isabelle
  imports Complex_Main "HOL-Library.Sublist" "HOL-Library.Log_Nat"
begin

section \<open>Expense tracker: the record store, the budget ledger and their commands\<close>

text \<open>
  The development embeds \<^verbatim>\<open>EXPENSE_TRACKER.py\<close>. Every command of the program is one
  function from the state of the world before the invocation (the two JSON documents,
  the other files on disk, the text printed so far) to the state after it.

  Modelling decisions:
  \<^item> A Python float is a value of \<open>pyfloat\<close>: a finite binary64 number given by its
    exact rational value, negative zero, the two infinities or NaN. Addition rounds the
    exact sum to the nearest binary64 number, ties to even; comparisons with NaN are
    false; \<open>round(x, 2)\<close> and the format \<open>.2f\<close> round the exact value of the float to
    two decimal places, ties to even.
  \<^item> A stored record is a dictionary with the keys \<open>id\<close>, \<open>date\<close>, \<open>description\<close>,
    \<open>amount\<close> and possibly \<open>category\<close> (the program reads that one with
    \<open>e.get("category", "")\<close>, so its absence is part of the model).
  \<^item> A date is kept as the text the program stores; reading it goes through
    \<open>strptime\<close>, which can fail with \<open>ValueError\<close>.
  \<^item> An uncaught exception ends the process: the result \<open>Crashed\<close> carries what the
    files and the output were at that point.
  \<^item> The CSV export is a list of rows of typed cells: the values handed to the CSV
    writer, not their quoting on disk. Opening the export file can fail; the two JSON
    documents are taken to be readable and writable.
\<close>

subsection \<open>Text: decimal numerals, padding, two-place formatting\<close>

definition digit_char :: "int \<Rightarrow> char" where
  "digit_char d = char_of (48 + d)"

text \<open>The decimal digits of a non-negative integer.\<close>

function str_nat :: "int \<Rightarrow> string" where
  "str_nat n = (if n < 10 then [digit_char n] else str_nat (n div 10) @ [digit_char (n mod 10)])"
  by pat_completeness auto
termination
  by (relation "measure nat") auto

declare str_nat.simps [simp del]

text \<open>\<open>str(i)\<close> for a Python integer.\<close>

definition str_int :: "int \<Rightarrow> string" where
  "str_int i = (if i < 0 then CHR ''-'' # str_nat (- i) else str_nat i)"

text \<open>Left and right padding to a width, as the format specifications \<open>: <3\<close> and \<open>02d\<close> do.\<close>

definition ljust :: "nat \<Rightarrow> string \<Rightarrow> string" where
  "ljust w s = s @ replicate (w - length s) CHR '' ''"

definition zfill :: "nat \<Rightarrow> string \<Rightarrow> string" where
  "zfill w s = replicate (w - length s) CHR ''0'' @ s"

subsection \<open>Floats\<close>

text \<open>Rounding a rational to the nearest integer, ties to the even one.\<close>

definition round_half_even :: "rat \<Rightarrow> int" where
  "round_half_even q =
     (let f = \<lfloor>q\<rfloor>; r = q - of_int f
      in if r < 1 / 2 then f
         else if 1 / 2 < r then f + 1
         else if even f then f else f + 1)"

text \<open>
  A Python float is an IEEE 754 binary64 value. \<open>Finite x\<close> is the number whose exact
  value is \<open>x\<close> (positive zero when \<open>x = 0\<close>). The floats the program meets are
  those that \<open>nearest_double\<close> returns: the float of a decimal text \<open>d\<close> is
  \<open>nearest_double d\<close>.
\<close>

datatype pyfloat = Finite rat | NegZero | PosInf | NegInf | NaN

definition pow2 :: "int \<Rightarrow> rat" where
  "pow2 k = (if 0 \<le> k then 2 ^ nat k else 1 / 2 ^ nat (- k))"

text \<open>The integer part of the binary logarithm of a positive rational.\<close>

definition floor_log2 :: "rat \<Rightarrow> int" where
  "floor_log2 a =
     (let (n, d) = quotient_of a; k = bitlen n - bitlen d
      in if pow2 k \<le> a then k else k - 1)"

text \<open>
  The binary64 number nearest to a rational, ties to the even significand. With \<open>e\<close>
  the binary exponent of \<open>x\<close> (not below \<open>-1022\<close>, where the subnormal numbers
  begin), the candidates are the multiples of \<open>2 ^ (e - 52)\<close>; the result is infinite when
  it reaches \<open>2 ^ 1024\<close>, that is when \<open>e\<close> is 1024 or more, or \<open>e\<close> is 1023 and the
  significand rounds up to \<open>2 ^ 53\<close>.
\<close>

definition nearest_double :: "rat \<Rightarrow> pyfloat" where
  "nearest_double x =
     (if x = 0 then Finite 0
      else
        (let a = \<bar>x\<bar>;
             e = max (floor_log2 a) (- 1022);
             ulp = pow2 (e - 52);
             q = round_half_even (a / ulp);
             r = of_int q * ulp
         in if 1024 \<le> e \<or> (e = 1023 \<and> q = 2 ^ 53) then (if x < 0 then NegInf else PosInf)
            else if r = 0 then (if x < 0 then NegZero else Finite 0)
            else Finite (if x < 0 then - r else r)))"

text \<open>\<open>x + y\<close>.\<close>

fun float_add :: "pyfloat \<Rightarrow> pyfloat \<Rightarrow> pyfloat" where
  "float_add NaN y = NaN"
| "float_add x NaN = NaN"
| "float_add PosInf NegInf = NaN"
| "float_add NegInf PosInf = NaN"
| "float_add PosInf y = PosInf"
| "float_add x PosInf = PosInf"
| "float_add NegInf y = NegInf"
| "float_add x NegInf = NegInf"
| "float_add NegZero y = y"
| "float_add x NegZero = x"
| "float_add (Finite a) (Finite b) = (if a + b = 0 then Finite 0 else nearest_double (a + b))"

text \<open>
  The order of floats: NaN has no place in it, the infinities lie outside the finite
  numbers, and the two zeros are equal.
\<close>

definition float_key :: "pyfloat \<Rightarrow> (int \<times> rat) option" where
  "float_key x =
     (case x of
        NaN \<Rightarrow> None
      | NegInf \<Rightarrow> Some (- 1, 0)
      | NegZero \<Rightarrow> Some (0, 0)
      | Finite a \<Rightarrow> Some (0, a)
      | PosInf \<Rightarrow> Some (1, 0))"

text \<open>\<open>x <= y\<close> and \<open>x < y\<close>.\<close>

definition float_le :: "pyfloat \<Rightarrow> pyfloat \<Rightarrow> bool" where
  "float_le x y =
     (case (float_key x, float_key y) of
        (Some (i, a), Some (j, b)) \<Rightarrow> i < j \<or> (i = j \<and> a \<le> b)
      | _ \<Rightarrow> False)"

definition float_lt :: "pyfloat \<Rightarrow> pyfloat \<Rightarrow> bool" where
  "float_lt x y =
     (case (float_key x, float_key y) of
        (Some (i, a), Some (j, b)) \<Rightarrow> i < j \<or> (i = j \<and> a < b)
      | _ \<Rightarrow> False)"

text \<open>
  \<open>round(x, 2)\<close>: the float nearest to the exact value of \<open>x\<close> rounded to two decimal
  places; infinities, NaN and negative zero round to themselves.
\<close>

definition round2 :: "pyfloat \<Rightarrow> pyfloat" where
  "round2 x =
     (case x of
        Finite a \<Rightarrow>
          (let q = round_half_even (a * 100)
           in if q = 0 then (if a < 0 then NegZero else Finite 0)
              else nearest_double (of_int q / 100))
      | _ \<Rightarrow> x)"

text \<open>The format specification \<open>.2f\<close>.\<close>

definition fmt2 :: "pyfloat \<Rightarrow> string" where
  "fmt2 x =
     (case x of
        Finite a \<Rightarrow>
          (let c = round_half_even (\<bar>a\<bar> * 100)
           in (if a < 0 then ''-'' else '''') @ str_nat (c div 100) @ ''.'' @ zfill 2 (str_nat (c mod 100)))
      | NegZero \<Rightarrow> ''-0.00''
      | PosInf \<Rightarrow> ''inf''
      | NegInf \<Rightarrow> ''-inf''
      | NaN \<Rightarrow> ''nan'')"

subsection \<open>Dates\<close>

datatype error = ValueError | SystemExit | OSError

record datetime =
  year :: int
  month :: int
  day :: int

definition is_leap :: "int \<Rightarrow> bool" where
  "is_leap y = (y mod 4 = 0 \<and> (y mod 100 \<noteq> 0 \<or> y mod 400 = 0))"

definition days_in_month :: "int \<Rightarrow> int \<Rightarrow> int" where
  "days_in_month y m =
     (if m = 2 then (if is_leap y then 29 else 28)
      else if m = 4 \<or> m = 6 \<or> m = 9 \<or> m = 11 then 30 else 31)"

text \<open>The constructor \<open>datetime(y, m, d)\<close>: \<open>ValueError\<close> outside the calendar.\<close>

definition mk_datetime :: "int \<Rightarrow> int \<Rightarrow> int \<Rightarrow> error + datetime" where
  "mk_datetime y m d =
     (if 1 \<le> y \<and> y \<le> 9999 \<and> 1 \<le> m \<and> m \<le> 12 \<and> 1 \<le> d \<and> d \<le> days_in_month y m
      then Inr \<lparr>year = y, month = m, day = d\<rparr>
      else Inl ValueError)"

definition is_digit :: "char \<Rightarrow> bool" where
  "is_digit c = (48 \<le> (of_char c :: nat) \<and> (of_char c :: nat) \<le> 57)"

definition digit_val :: "char \<Rightarrow> int" where
  "digit_val c = int (of_char c) - 48"

text \<open>
  The directive patterns of \<open>strptime\<close>: \<open>%m\<close> is \<open>1[0-2]|0[1-9]|[1-9]\<close> and
  \<open>%d\<close> is \<open>3[01]|[12]\d|0[1-9]|[1-9]| [1-9]\<close>; each function returns the number read.
\<close>

fun match_month :: "string \<Rightarrow> int option" where
  "match_month [c] = (if is_digit c \<and> c \<noteq> CHR ''0'' then Some (digit_val c) else None)"
| "match_month [c, d] =
     (if c = CHR ''1'' \<and> (d = CHR ''0'' \<or> d = CHR ''1'' \<or> d = CHR ''2'') then Some (10 + digit_val d)
      else if c = CHR ''0'' \<and> is_digit d \<and> d \<noteq> CHR ''0'' then Some (digit_val d)
      else None)"
| "match_month _ = None"

fun match_day :: "string \<Rightarrow> int option" where
  "match_day [c] = (if is_digit c \<and> c \<noteq> CHR ''0'' then Some (digit_val c) else None)"
| "match_day [c, d] =
     (if c = CHR ''3'' \<and> (d = CHR ''0'' \<or> d = CHR ''1'') then Some (30 + digit_val d)
      else if (c = CHR ''1'' \<or> c = CHR ''2'') \<and> is_digit d then Some (10 * digit_val c + digit_val d)
      else if (c = CHR ''0'' \<or> c = CHR '' '') \<and> is_digit d \<and> d \<noteq> CHR ''0'' then Some (digit_val d)
      else None)"
| "match_day _ = None"

text \<open>
  \<open>datetime.strptime(s, "%Y-%m-%d")\<close>: four digits, a dash, a month, a dash, a day and
  nothing more, then the constructor's own check of the calendar.
\<close>

fun strptime :: "string \<Rightarrow> error + datetime" where
  "strptime (a # b # c # d # e # rest) =
     (if is_digit a \<and> is_digit b \<and> is_digit c \<and> is_digit d \<and> e = CHR ''-'' then
        (let ms = takeWhile (\<lambda>x. x \<noteq> CHR ''-'') rest;
             ds = drop (Suc (length ms)) rest
         in if length ms < length rest then
              (case (match_month ms, match_day ds) of
                 (Some m, Some dd) \<Rightarrow>
                   mk_datetime (1000 * digit_val a + 100 * digit_val b + 10 * digit_val c + digit_val d) m dd
               | _ \<Rightarrow> Inl ValueError)
            else Inl ValueError)
      else Inl ValueError)"
| "strptime _ = Inl ValueError"

text \<open>\<open>dt.strftime("%Y-%m-%d")\<close> and \<open>dt.strftime("%B")\<close>.\<close>

definition strftime_ymd :: "datetime \<Rightarrow> string" where
  "strftime_ymd dt =
     str_int (year dt) @ ''-'' @ zfill 2 (str_int (month dt)) @ ''-'' @ zfill 2 (str_int (day dt))"

definition strftime_B :: "datetime \<Rightarrow> string" where
  "strftime_B dt =
     (let m = month dt
      in if m = 1 then ''January'' else if m = 2 then ''February'' else if m = 3 then ''March''
         else if m = 4 then ''April'' else if m = 5 then ''May'' else if m = 6 then ''June''
         else if m = 7 then ''July'' else if m = 8 then ''August'' else if m = 9 then ''September''
         else if m = 10 then ''October'' else if m = 11 then ''November'' else ''December'')"

subsection \<open>The data model\<close>

record expense =
  exp_id :: int
  date :: string
  description :: string
  amount :: pyfloat
  category :: "string option"

text \<open>\<open>e.get("category", "")\<close>.\<close>

definition get_category :: "expense \<Rightarrow> string" where
  "get_category e = (case category e of None \<Rightarrow> '''' | Some c \<Rightarrow> c)"

datatype cell = IntCell int | StrCell string | NumCell pyfloat

text \<open>
  The world of one invocation: \<open>expenses.json\<close> and \<open>budget.json\<close> (\<open>None\<close> when the
  file does not exist), the files written by the export, the names that cannot be opened
  for writing (a missing directory, a directory, no permission), and the lines printed.
\<close>

record world =
  expenses_json :: "expense list option"
  budget_json :: "(string \<rightharpoonup> pyfloat) option"
  files :: "string \<rightharpoonup> cell list list"
  unwritable :: "string set"
  stdout :: "string list"

datatype result = Done world | Crashed error world

definition world_of :: "result \<Rightarrow> world" where
  "world_of r = (case r of Done w \<Rightarrow> w | Crashed e w \<Rightarrow> w)"

definition load_expenses :: "world \<Rightarrow> expense list" where
  "load_expenses w = (case expenses_json w of None \<Rightarrow> [] | Some es \<Rightarrow> es)"

definition save_expenses :: "expense list \<Rightarrow> world \<Rightarrow> world" where
  "save_expenses expenses w = w\<lparr>expenses_json := Some expenses\<rparr>"

definition load_budget :: "world \<Rightarrow> (string \<rightharpoonup> pyfloat)" where
  "load_budget w = (case budget_json w of None \<Rightarrow> Map.empty | Some b \<Rightarrow> b)"

definition save_budget :: "(string \<rightharpoonup> pyfloat) \<Rightarrow> world \<Rightarrow> world" where
  "save_budget budget w = w\<lparr>budget_json := Some budget\<rparr>"

definition print :: "string \<Rightarrow> world \<Rightarrow> world" where
  "print line w = w\<lparr>stdout := stdout w @ [line]\<rparr>"

text \<open>The truth value of an optional text argument: absent and empty are both false.\<close>

definition truthy :: "string option \<Rightarrow> bool" where
  "truthy a = (case a of None \<Rightarrow> False | Some s \<Rightarrow> s \<noteq> '''')"

subsection \<open>Identifiers\<close>

text \<open>\<open>max(...)\<close> over a non-empty sequence, as a running maximum.\<close>

fun maximum :: "int \<Rightarrow> int list \<Rightarrow> int" where
  "maximum m [] = m"
| "maximum m (x # xs) = maximum (if m < x then x else m) xs"

definition generate_new_id :: "expense list \<Rightarrow> int" where
  "generate_new_id expenses =
     (case expenses of
        [] \<Rightarrow> 1
      | e # rest \<Rightarrow> maximum (exp_id e) (map exp_id rest) + 1)"

subsection \<open>Monthly totals and the budget check\<close>

text \<open>
  \<open>sum(...)\<close>: the floats are added one after the other, from zero, each addition
  rounded. This is the summation of CPython up to version 3.11; from 3.12 on the
  interpreter carries a correction term for the rounding errors, which this model does not.
\<close>

definition py_sum :: "pyfloat list \<Rightarrow> pyfloat" where
  "py_sum xs = foldl float_add (Finite 0) xs"

text \<open>
  The comprehension that keeps the records of month \<open>m\<close> of year \<open>y\<close>. It parses every
  stored date, and the first one that does not parse raises.
\<close>

fun month_filter :: "int \<Rightarrow> int \<Rightarrow> expense list \<Rightarrow> error + expense list" where
  "month_filter m y [] = Inr []"
| "month_filter m y (e # es) =
     (case strptime (date e) of
        Inl err \<Rightarrow> Inl err
      | Inr dt \<Rightarrow>
          (case month_filter m y es of
             Inl err \<Rightarrow> Inl err
           | Inr kept \<Rightarrow> Inr (if month dt = m \<and> year dt = y then e # kept else kept)))"


definition warn_budget_if_needed :: "pyfloat \<Rightarrow> string \<Rightarrow> expense list \<Rightarrow> world \<Rightarrow> result" where
  "warn_budget_if_needed additional date_str all_expenses w =
     (case strptime date_str of
        Inl err \<Rightarrow> Crashed err w
      | Inr dt \<Rightarrow>
          (let budget = load_budget w; m = str_int (month dt)
           in case budget m of
                None \<Rightarrow> Done w
              | Some budget_amt \<Rightarrow>
                  (case month_filter (month dt) (year dt) all_expenses of
                     Inl err \<Rightarrow> Crashed err w
                   | Inr month_expenses \<Rightarrow>
                       (let total = py_sum (map amount month_expenses)
                        in if float_lt budget_amt total
                           then Done (print (''Warning: You have exceeded your budget ($'' @ fmt2 budget_amt
                                              @ '') for '' @ strftime_B dt @ ''.'') w)
                           else Done w))))"

definition show_budget_warning_if_exceeded :: "int \<Rightarrow> pyfloat \<Rightarrow> world \<Rightarrow> world" where
  "show_budget_warning_if_exceeded mth month_total w =
     (let budget = load_budget w
      in case budget (str_int mth) of
           None \<Rightarrow> w
         | Some budget_amt \<Rightarrow>
             if float_lt budget_amt month_total
             then print (''Warning: Total expenses exceed the set budget ($'' @ fmt2 budget_amt
                          @ '') for this month.'') w
             else w)"

subsection \<open>Add\<close>

record add_args =
  add_description :: string
  add_amount :: pyfloat
  add_category :: "string option"

text \<open>The clock reading \<open>datetime.now()\<close> of the invocation is the parameter \<open>now\<close>.\<close>

definition add_expense :: "datetime \<Rightarrow> add_args \<Rightarrow> world \<Rightarrow> result" where
  "add_expense now args w =
     (let expenses = load_expenses w
      in if float_le (add_amount args) (Finite 0) then Done (print ''Error: Amount must be a positive number.'' w)
         else
           (let expense = \<lparr>exp_id = generate_new_id expenses,
                           date = strftime_ymd now,
                           description = add_description args,
                           amount = round2 (add_amount args),
                           category = Some (if truthy (add_category args)
                                            then the (add_category args) else '''')\<rparr>;
                expenses' = expenses @ [expense];
                w1 = save_expenses expenses' w
            in case warn_budget_if_needed (amount expense) (date expense) expenses' w1 of
                 Crashed err w2 \<Rightarrow> Crashed err w2
               | Done w2 \<Rightarrow>
                   Done (print (''Expense added successfully (ID: '' @ str_int (exp_id expense) @ '')'') w2)))"

subsection \<open>Update\<close>

record update_args =
  upd_id :: int
  upd_description :: "string option"
  upd_amount :: "pyfloat option"
  upd_category :: "string option"

text \<open>
  The loop of \<open>update_expense\<close> changes the first record with the identifier in place.
  It ends in one of three ways, each with the list as it then is in memory: no record
  matched, the amount check returned out of the function, or the record was updated.
\<close>

datatype scan = NoMatch "expense list" | Invalid "expense list" | Updated "expense list"

definition cons_scan :: "expense \<Rightarrow> scan \<Rightarrow> scan" where
  "cons_scan e s =
     (case s of NoMatch es \<Rightarrow> NoMatch (e # es) | Invalid es \<Rightarrow> Invalid (e # es) | Updated es \<Rightarrow> Updated (e # es))"

fun update_loop :: "update_args \<Rightarrow> expense list \<Rightarrow> scan" where
  "update_loop args [] = NoMatch []"
| "update_loop args (expense # rest) =
     (if exp_id expense = upd_id args then
        (let e1 = (if truthy (upd_description args)
                   then expense\<lparr>description := the (upd_description args)\<rparr> else expense)
         in case upd_amount args of
              None \<Rightarrow>
                Updated ((if truthy (upd_category args)
                          then e1\<lparr>category := upd_category args\<rparr> else e1) # rest)
            | Some a \<Rightarrow>
                if float_le a (Finite 0) then Invalid (e1 # rest)
                else
                  (let e2 = e1\<lparr>amount := round2 a\<rparr>
                   in Updated ((if truthy (upd_category args)
                                then e2\<lparr>category := upd_category args\<rparr> else e2) # rest)))
      else cons_scan expense (update_loop args rest))"

definition update_expense :: "update_args \<Rightarrow> world \<Rightarrow> result" where
  "update_expense args w =
     (let expenses = load_expenses w
      in case update_loop args expenses of
           Invalid expenses' \<Rightarrow> Done (print ''Error: Amount must be positive.'' w)
         | Updated expenses' \<Rightarrow> Done (print ''Expense updated successfully'' (save_expenses expenses' w))
         | NoMatch expenses' \<Rightarrow>
             Done (print (''Error: Expense with ID '' @ str_int (upd_id args) @ '' not found.'') w))"

subsection \<open>Delete\<close>

definition delete_expense :: "int \<Rightarrow> world \<Rightarrow> result" where
  "delete_expense i w =
     (let expenses = load_expenses w;
          prev_count = length expenses;
          expenses' = filter (\<lambda>e. exp_id e \<noteq> i) expenses
      in if length expenses' \<noteq> prev_count
         then Done (print ''Expense deleted successfully'' (save_expenses expenses' w))
         else Done (print (''Error: Expense with ID '' @ str_int i @ '' not found.'') w))"

subsection \<open>List\<close>

text \<open>The records that \<open>list_expenses\<close> and \<open>export_csv\<close> go on with, after the optional filter.\<close>

definition select_category :: "string option \<Rightarrow> expense list \<Rightarrow> expense list" where
  "select_category cat expenses =
     (if truthy cat then filter (\<lambda>e. get_category e = the cat) expenses else expenses)"

definition list_row :: "expense \<Rightarrow> string" where
  "list_row e =
     ljust 3 (str_int (exp_id e)) @ '' '' @ date e @ ''  '' @ ljust 14 (take 12 (description e))
       @ '' $'' @ ljust 7 (fmt2 (amount e)) @ '' '' @ get_category e"

definition list_expenses :: "string option \<Rightarrow> world \<Rightarrow> result" where
  "list_expenses cat w =
     (let expenses = select_category cat (load_expenses w)
      in if expenses = [] then Done (print ''No expenses found.'' w)
         else Done (fold (\<lambda>e. print (list_row e)) expenses
                      (print (replicate 50 CHR ''-'')
                         (print ''ID  Date        Description      Amount   Category'' w))))"

subsection \<open>Summary\<close>

text \<open>\<open>datetime(y, m, 1).strftime("%B")\<close>.\<close>

definition month_display_name :: "int \<Rightarrow> int \<Rightarrow> error + string" where
  "month_display_name y m =
     (case mk_datetime y m 1 of Inl err \<Rightarrow> Inl err | Inr dt \<Rightarrow> Inr (strftime_B dt))"

definition summary_expenses :: "datetime \<Rightarrow> int option \<Rightarrow> world \<Rightarrow> result" where
  "summary_expenses now mth w =
     (let expenses = load_expenses w
      in case mth of
           None \<Rightarrow>
             Done (print (''Total expenses: $'' @ fmt2 (py_sum (map amount expenses))) w)
         | Some m \<Rightarrow>
             if m = 0 then
               Done (print (''Total expenses: $'' @ fmt2 (py_sum (map amount expenses))) w)
             else
               (case month_filter m (year now) expenses of
                  Inl err \<Rightarrow> Crashed err w
                | Inr filtered \<Rightarrow>
                    (let total = py_sum (map amount filtered)
                     in case month_display_name (year now) m of
                          Inl err \<Rightarrow> Crashed err w
                        | Inr name \<Rightarrow>
                            Done (show_budget_warning_if_exceeded m total
                                    (print (''Total expenses for '' @ name @ '': $'' @ fmt2 total) w)))))"

subsection \<open>Set budget\<close>

definition set_budget :: "int \<Rightarrow> pyfloat \<Rightarrow> world \<Rightarrow> result" where
  "set_budget mth amt w =
     (if float_le amt (Finite 0) then Done (print ''Error: Budget amount must be positive.'' w)
      else
        (let budget = load_budget w;
             w1 = save_budget (budget(str_int mth \<mapsto> round2 amt)) w
         in case month_display_name 2022 mth of
              Inl err \<Rightarrow> Crashed err w1
            | Inr name \<Rightarrow>
                Done (print (''Budget of $'' @ fmt2 amt @ '' set for month '' @ name @ ''.'') w1)))"

subsection \<open>Export\<close>

definition csv_header :: "cell list" where
  "csv_header = [StrCell ''id'', StrCell ''date'', StrCell ''description'', StrCell ''amount'', StrCell ''category'']"

definition csv_row :: "expense \<Rightarrow> cell list" where
  "csv_row e =
     [IntCell (exp_id e), StrCell (date e), StrCell (description e), NumCell (amount e), StrCell (get_category e)]"

text \<open>
  \<open>open(name, "w")\<close>: \<open>OSError\<close> for the empty name and for a name that cannot be
  opened; otherwise the file is there and empty.
\<close>

definition open_for_writing :: "string \<Rightarrow> world \<Rightarrow> error + world" where
  "open_for_writing name w =
     (if name = [] \<or> name \<in> unwritable w then Inl OSError
      else Inr (w\<lparr>files := (files w)(name \<mapsto> [])\<rparr>))"

definition export_csv :: "string \<Rightarrow> string option \<Rightarrow> world \<Rightarrow> result" where
  "export_csv filename cat w =
     (let expenses = select_category cat (load_expenses w)
      in if expenses = [] then Done (print ''No expenses to export.'' w)
         else
           (case open_for_writing filename w of
              Inl err \<Rightarrow> Crashed err w
            | Inr w1 \<Rightarrow>
                Done (print (''Exported expenses to '' @ filename)
                        (w1\<lparr>files := (files w1)(filename \<mapsto> csv_header # map csv_row expenses)\<rparr>))))"

subsection \<open>The command line\<close>

datatype command =
    Add add_args
  | Update update_args
  | Delete int
  | List "string option"
  | Summary "int option"
  | SetBudget int pyfloat
  | ExportCsv string "string option"

text \<open>
  One invocation. The argument parser accepts a month only from \<open>range(1, 13)\<close> and
  exits before any command runs otherwise.
\<close>

definition month_choice :: "int \<Rightarrow> bool" where
  "month_choice m = (1 \<le> m \<and> m \<le> 12)"

fun main :: "datetime \<Rightarrow> command \<Rightarrow> world \<Rightarrow> result" where
  "main now (Add args) w = add_expense now args w"
| "main now (Update args) w = update_expense args w"
| "main now (Delete i) w = delete_expense i w"
| "main now (List cat) w = list_expenses cat w"
| "main now (Summary None) w = summary_expenses now None w"
| "main now (Summary (Some m)) w =
     (if month_choice m then summary_expenses now (Some m) w else Crashed SystemExit w)"
| "main now (SetBudget m amt) w =
     (if month_choice m then set_budget m amt w else Crashed SystemExit w)"
| "main now (ExportCsv filename cat) w = export_csv filename cat w"

text \<open>A session: one process per command, each starting from the files the last one left.\<close>

fun run :: "(datetime \<times> command) list \<Rightarrow> world \<Rightarrow> world" where
  "run [] w = w"
| "run ((now, c) # cs) w = run cs (world_of (main now c w))"

subsection \<open>Example data\<close>

definition empty_world :: world where
  "empty_world = \<lparr>expenses_json = None, budget_json = None, files = Map.empty, unwritable = {}, stdout = []\<rparr>"

definition coffee :: expense where
  "coffee = \<lparr>exp_id = 1, date = ''2024-06-15'', description = ''Coffee'', amount = Finite (9 / 2),
              category = Some ''food''\<rparr>"

definition book :: expense where
  "book = \<lparr>exp_id = 2, date = ''2024-06-20'', description = ''Book'', amount = Finite 20, category = Some ''''\<rparr>"

definition two_records :: world where
  "two_records = \<lparr>expenses_json = Some [coffee, book], budget_json = None, files = Map.empty,
                   unwritable = {''/no/such/dir/out.csv''}, stdout = []\<rparr>"





definition tea :: add_args where
  "tea = \<lparr>add_description = ''Tea'', add_amount = Finite 3, add_category = None\<rparr>"

definition june_21 :: datetime where
  "june_21 = \<lparr>year = 2024, month = 6, day = 21\<rparr>"

section \<open>Properties\<close>

subsection \<open>Basic facts\<close>

lemma maximum_ge_start: "m \<le> maximum m xs"
  by (induction xs arbitrary: m) (auto intro: order_trans less_imp_le)

lemma maximum_ge_elem: "x \<in> set xs \<Longrightarrow> x \<le> maximum m xs"
proof (induction xs arbitrary: m)
  case Nil
  then show ?case by simp
next
  case (Cons y ys)
  show ?case
  proof (cases "x = y")
    case True
    have "y \<le> (if m < y then y else m)" by simp
    also have "\<dots> \<le> maximum (if m < y then y else m) ys" by (rule maximum_ge_start)
    finally show ?thesis using True by simp
  next
    case False
    with Cons.prems have "x \<in> set ys" by simp
    then show ?thesis using Cons.IH by simp
  qed
qed

lemma maximum_mem: "maximum m xs \<in> insert m (set xs)"
  by (induction xs arbitrary: m) (auto split: if_splits)

lemma maximum_Max: "maximum m xs = Max (insert m (set xs))"
proof -
  have "Max (insert m (set xs)) = maximum m xs"
  proof (rule Max_eqI)
    show "finite (insert m (set xs))" by simp
    show "maximum m xs \<in> insert m (set xs)" by (rule maximum_mem)
    fix y assume "y \<in> insert m (set xs)"
    then show "y \<le> maximum m xs" using maximum_ge_start maximum_ge_elem by auto
  qed
  then show ?thesis by simp
qed

lemma generate_new_id_Max:
  "generate_new_id es = (if es = [] then 1 else Max (exp_id ` set es) + 1)"
  by (cases es) (simp_all add: generate_new_id_def maximum_Max)

lemma generate_new_id_greater: "e \<in> set es \<Longrightarrow> exp_id e < generate_new_id es"
proof -
  assume e: "e \<in> set es"
  then have ne: "es \<noteq> []" by auto
  have "exp_id e \<le> Max (exp_id ` set es)" using e by simp
  then show ?thesis using ne by (simp add: generate_new_id_Max)
qed

lemma world_of_simps [simp]: "world_of (Done w) = w" "world_of (Crashed e w) = w"
  by (simp_all add: world_of_def)

lemma expenses_json_print [simp]: "expenses_json (print s w) = expenses_json w"
  by (simp add: print_def)

lemma load_expenses_print [simp]: "load_expenses (print s w) = load_expenses w"
  by (simp add: load_expenses_def)

lemma load_expenses_save [simp]: "load_expenses (save_expenses es w) = es"
  by (simp add: load_expenses_def save_expenses_def)

lemma print_eq: "print s w = w\<lparr>stdout := stdout w @ [s]\<rparr>"
  by (simp add: print_def)

subsection \<open>The shape of the update loop\<close>

lemma update_loop_NoMatch:
  "upd_id args \<notin> exp_id ` set es \<Longrightarrow> update_loop args es = NoMatch es"
  by (induction es) (auto simp: cons_scan_def)

lemma update_loop_NoMatch_iff:
  "(\<exists>es'. update_loop args es = NoMatch es') \<longleftrightarrow> upd_id args \<notin> exp_id ` set es"
  by (induction es) (auto simp: cons_scan_def Let_def split: option.splits scan.splits if_splits)

lemma update_loop_Invalid:
  "upd_id args \<in> exp_id ` set es \<Longrightarrow> upd_amount args = Some a \<Longrightarrow> float_le a (Finite 0) \<Longrightarrow>
   \<exists>es'. update_loop args es = Invalid es'"
  by (induction es) (auto simp: cons_scan_def Let_def split: option.splits scan.splits if_splits)

lemma update_loop_Updated_ids:
  "update_loop args es = Updated es' \<Longrightarrow> map exp_id es' = map exp_id es \<and> map date es' = map date es"
  by (induction es arbitrary: es') (auto simp: cons_scan_def Let_def split: option.splits scan.splits if_splits)

lemma update_loop_Updated_others:
  "update_loop args es = Updated es' \<Longrightarrow> j < length es \<Longrightarrow> exp_id (es ! j) \<noteq> upd_id args \<Longrightarrow> es' ! j = es ! j"
proof (induction es arbitrary: es' j)
  case Nil
  then show ?case by simp
next
  case (Cons e es)
  then show ?case
    by (cases j) (auto simp: cons_scan_def Let_def split: option.splits scan.splits if_splits)
qed

lemma update_loop_length:
  "update_loop args es = Updated es' \<Longrightarrow> length es' = length es"
proof -
  assume "update_loop args es = Updated es'"
  then have "map exp_id es' = map exp_id es" by (simp add: update_loop_Updated_ids)
  then have "length (map exp_id es') = length (map exp_id es)" by simp
  then show ?thesis by simp
qed

lemma update_loop_Updated_rel:
  "update_loop args es = Updated es' \<Longrightarrow> j < length es \<Longrightarrow>
     es' ! j = es ! j
   \<or> (description (es' ! j)
         = (if truthy (upd_description args) then the (upd_description args) else description (es ! j))
       \<and> category (es' ! j)
         = (if truthy (upd_category args) then upd_category args else category (es ! j)))"
proof (induction es arbitrary: es' j)
  case Nil
  then show ?case by simp
next
  case (Cons e es)
  show ?case
  proof (cases "exp_id e = upd_id args")
    case True
    with Cons.prems(1) have "description (hd es')
              = (if truthy (upd_description args) then the (upd_description args) else description e)
          \<and> category (hd es') = (if truthy (upd_category args) then upd_category args else category e)
          \<and> tl es' = es \<and> es' \<noteq> []"
      by (auto simp: Let_def split: option.splits if_splits)
    then show ?thesis by (cases j; cases es') auto
  next
    case False
    with Cons.prems(1) obtain r where r: "update_loop args es = Updated r" "es' = e # r"
      by (auto simp: cons_scan_def split: scan.splits)
    show ?thesis
    proof (cases j)
      case 0
      then show ?thesis using r by simp
    next
      case (Suc k)
      then have "k < length es" using Cons.prems(2) by simp
      from Cons.IH [OF r(1) this] show ?thesis unfolding Suc r(2) by (simp cong: if_cong split del: if_split)
    qed
  qed
qed

lemma update_loop_Updated_fields:
  assumes "update_loop args es = Updated es'" and "j < length es"
  shows "(\<not> truthy (upd_description args) \<longrightarrow> description (es' ! j) = description (es ! j))
       \<and> (\<not> truthy (upd_category args) \<longrightarrow> category (es' ! j) = category (es ! j))
       \<and> (description (es' ! j) = '''' \<longrightarrow> description (es ! j) = '''')
       \<and> (get_category (es' ! j) = '''' \<longrightarrow> get_category (es ! j) = '''')"
  using update_loop_Updated_rel [OF assms]
  by (cases "upd_description args"; cases "upd_category args")
     (auto simp: truthy_def get_category_def split: if_splits)

lemma load_after_update:
  "load_expenses (world_of (update_expense args w)) =
     (case update_loop args (load_expenses w) of Updated es' \<Rightarrow> es' | _ \<Rightarrow> load_expenses w)"
  by (simp add: update_expense_def split: scan.splits)

lemma update_loop_empty_description:
  "update_loop (args\<lparr>upd_description := Some ''''\<rparr>) es = update_loop (args\<lparr>upd_description := None\<rparr>) es"
  by (induction es) (auto simp: truthy_def Let_def split: option.splits)

lemma update_loop_empty_category:
  "update_loop (args\<lparr>upd_category := Some ''''\<rparr>) es = update_loop (args\<lparr>upd_category := None\<rparr>) es"
  by (induction es) (auto simp: truthy_def Let_def split: option.splits)

lemma update_expense_empty_description:
  "update_expense (args\<lparr>upd_description := Some ''''\<rparr>) w = update_expense (args\<lparr>upd_description := None\<rparr>) w"
  unfolding update_expense_def update_loop_empty_description by (simp cong: scan.case_cong)

lemma update_expense_empty_category:
  "update_expense (args\<lparr>upd_category := Some ''''\<rparr>) w = update_expense (args\<lparr>upd_category := None\<rparr>) w"
  unfolding update_expense_def update_loop_empty_category by (simp cong: scan.case_cong)

lemma update_expense_fields:
  assumes j: "j < length (load_expenses w)"
  shows "(upd_description args = Some '''' \<longrightarrow>
            description (load_expenses (world_of (update_expense args w)) ! j) = description (load_expenses w ! j))
       \<and> (upd_category args = Some '''' \<longrightarrow>
            category (load_expenses (world_of (update_expense args w)) ! j) = category (load_expenses w ! j))
       \<and> (description (load_expenses (world_of (update_expense args w)) ! j) = '''' \<longrightarrow>
            description (load_expenses w ! j) = '''')
       \<and> (get_category (load_expenses (world_of (update_expense args w)) ! j) = '''' \<longrightarrow>
            get_category (load_expenses w ! j) = '''')"
proof (cases "update_loop args (load_expenses w)")
  case (Updated es')
  then have l: "load_expenses (world_of (update_expense args w)) = es'"
    by (simp add: load_after_update)
  have t: "upd_description args = Some '''' \<Longrightarrow> \<not> truthy (upd_description args)"
    "upd_category args = Some '''' \<Longrightarrow> \<not> truthy (upd_category args)"
    by (simp_all add: truthy_def)
  show ?thesis
    unfolding l using update_loop_Updated_fields [OF Updated j] t by blast
next
  case (NoMatch es')
  then show ?thesis by (simp add: load_after_update)
next
  case (Invalid es')
  then show ?thesis by (simp add: load_after_update)
qed

subsection \<open>Listing and selecting\<close>

lemma fold_print:
  "fold (\<lambda>e. print (f e)) es w = w\<lparr>stdout := stdout w @ map f es\<rparr>"
  by (induction es arbitrary: w) (simp_all add: print_def)

lemma select_category_unfiltered:
  "cat = None \<or> cat = Some '''' \<Longrightarrow> select_category cat es = es"
  by (auto simp: select_category_def truthy_def)

lemma select_category_filtered:
  "c \<noteq> '''' \<Longrightarrow> select_category (Some c) es = filter (\<lambda>e. get_category e = c) es"
  by (simp add: select_category_def truthy_def)

lemma list_expenses_report:
  "list_expenses cat w =
     Done (w\<lparr>stdout := stdout w @
             (if select_category cat (load_expenses w) = [] then [''No expenses found.'']
              else [''ID  Date        Description      Amount   Category'', replicate 50 CHR ''-'']
                   @ map list_row (select_category cat (load_expenses w)))\<rparr>)"
  by (simp add: list_expenses_def Let_def fold_print print_def)

subsection \<open>Totals, month names and the two budget checks\<close>

lemma load_stdout_update [simp]:
  "load_budget (w\<lparr>stdout := out\<rparr>) = load_budget w"
  "load_expenses (w\<lparr>stdout := out\<rparr>) = load_expenses w"
  by (simp_all add: load_budget_def load_expenses_def)



lemma show_budget_warning_eq:
  "show_budget_warning_if_exceeded m t w =
     w\<lparr>stdout := stdout w @
         (case load_budget w (str_int m) of
            None \<Rightarrow> []
          | Some cap \<Rightarrow>
              if float_lt cap t
              then [''Warning: Total expenses exceed the set budget ($'' @ fmt2 cap @ '') for this month.'']
              else [])\<rparr>"
  by (simp add: show_budget_warning_if_exceeded_def print_def split: option.splits)




subsection \<open>The example data evaluated\<close>










lemma large_total:
  "foldl float_add (Finite 0) [Finite (10 ^ 16), Finite 1] = Finite (10 ^ 16)"
  "fmt2 (Finite (10 ^ 16)) = ''10000000000000000.00''"
  by code_simp+

text \<open>
  Rounding and formatting follow the binary value: the float of 0.015 lies below 0.015
  and prints as 0.01, the float of 2.675 rounds to the float of 2.67, and a tie such as
  0.125 goes to the even digit. NaN is neither below nor above anything.
\<close>

lemma rounding_examples:
  "fmt2 (nearest_double (15 / 1000)) = ''0.01''"
  "round2 (nearest_double (2675 / 1000)) = nearest_double (267 / 100)"
  "round2 (Finite (1 / 8)) = nearest_double (12 / 100)"
  "fmt2 (Finite (1 / 8)) = ''0.12''"
  "fmt2 (Finite (- 1 / 1000)) = ''-0.00''"
  by code_simp+

lemma special_values:
  "\<not> float_le NaN (Finite 0)" "\<not> float_lt (Finite 0) NaN" "\<not> float_lt NaN (Finite 0)"
  "float_le NegZero (Finite 0)" "float_le NegInf (Finite 0)" "\<not> float_le PosInf (Finite 0)"
  "float_add PosInf NegInf = NaN" "float_add (Finite 1) PosInf = PosInf"
  "round2 NaN = NaN" "round2 PosInf = PosInf"
  "fmt2 NaN = ''nan''" "fmt2 PosInf = ''inf''" "fmt2 NegInf = ''-inf''" "fmt2 NegZero = ''-0.00''"
  by (simp_all add: float_le_def float_lt_def float_key_def round2_def fmt2_def)

subsection \<open>The stored list after each command\<close>

lemma expenses_json_warn:
  "expenses_json (world_of (warn_budget_if_needed a d es w)) = expenses_json w"
  by (simp add: warn_budget_if_needed_def Let_def split: sum.splits option.splits)

lemma load_after_warn:
  "load_expenses (world_of (warn_budget_if_needed a d es w)) = load_expenses w"
  by (simp add: load_expenses_def expenses_json_warn)

lemma load_after_add:
  "load_expenses (world_of (add_expense now args w)) =
     (if float_le (add_amount args) (Finite 0) then load_expenses w
      else load_expenses w @
             [\<lparr>exp_id = generate_new_id (load_expenses w),
               date = strftime_ymd now,
               description = add_description args,
               amount = round2 (add_amount args),
               category = Some (case add_category args of None \<Rightarrow> [] | Some c \<Rightarrow> c)\<rparr>])"
proof (cases "float_le (add_amount args) (Finite 0)")
  case True
  then show ?thesis by (simp add: add_expense_def)
next
  case False
  have c: "(if truthy (add_category args) then the (add_category args) else [])
             = (case add_category args of None \<Rightarrow> [] | Some c \<Rightarrow> c)"
    by (simp add: truthy_def split: option.splits)
  let ?e = "\<lparr>exp_id = generate_new_id (load_expenses w),
               date = strftime_ymd now,
               description = add_description args,
               amount = round2 (add_amount args),
               category = Some (case add_category args of None \<Rightarrow> [] | Some c \<Rightarrow> c)\<rparr>"
  let ?w1 = "save_expenses (load_expenses w @ [?e]) w"
  have "load_expenses (world_of (add_expense now args w))
          = load_expenses (world_of (warn_budget_if_needed (amount ?e) (date ?e) (load_expenses w @ [?e]) ?w1))"
    using False by (simp add: add_expense_def Let_def c split: result.splits)
  also have "\<dots> = load_expenses ?w1" by (rule load_after_warn)
  finally show ?thesis using False by simp
qed

lemma load_after_delete:
  "load_expenses (world_of (delete_expense i w)) = filter (\<lambda>e. exp_id e \<noteq> i) (load_expenses w)"
proof (cases "length (filter (\<lambda>e. exp_id e \<noteq> i) (load_expenses w)) = length (load_expenses w)")
  case True
  then have "filter (\<lambda>e. exp_id e \<noteq> i) (load_expenses w) = load_expenses w"
    by (metis filter_True length_filter_less less_irrefl)
  with True show ?thesis by (simp add: delete_expense_def)
next
  case False
  then show ?thesis by (simp add: delete_expense_def)
qed

lemma load_after_list: "load_expenses (world_of (list_expenses cat w)) = load_expenses w"
  by (simp add: list_expenses_report)

lemma load_after_summary: "load_expenses (world_of (summary_expenses now m w)) = load_expenses w"
  by (simp add: summary_expenses_def show_budget_warning_eq Let_def split: option.splits sum.splits)

lemma load_after_set_budget: "load_expenses (world_of (set_budget m a w)) = load_expenses w"
  by (simp add: set_budget_def save_budget_def load_expenses_def print_def Let_def split: sum.splits)

lemma load_after_export: "load_expenses (world_of (export_csv f cat w)) = load_expenses w"
  by (simp add: export_csv_def open_for_writing_def load_expenses_def print_def Let_def)

lemma main_keeps_distinct:
  assumes "distinct (map exp_id (load_expenses w))"
  shows "distinct (map exp_id (load_expenses (world_of (main now c w))))"
proof (cases c)
  case (Add args)
  have "generate_new_id (load_expenses w) \<notin> exp_id ` set (load_expenses w)"
    using generate_new_id_greater by fastforce
  with assms Add show ?thesis by (simp add: load_after_add)
next
  case (Update args)
  have "map exp_id (load_expenses (world_of (update_expense args w))) = map exp_id (load_expenses w)"
    using update_loop_Updated_ids [of args "load_expenses w"]
    by (simp add: load_after_update split: scan.splits)
  with assms Update show ?thesis by simp
next
  case (Delete i)
  with assms show ?thesis by (simp add: load_after_delete distinct_map_filter)
next
  case (List cat)
  with assms show ?thesis by (simp add: load_after_list)
next
  case (Summary m)
  with assms show ?thesis by (cases m) (simp_all add: load_after_summary)
next
  case (SetBudget m a)
  with assms show ?thesis by (simp add: load_after_set_budget)
next
  case (ExportCsv f cat)
  with assms show ?thesis by (simp add: load_after_export)
qed

lemma run_keeps_distinct:
  "distinct (map exp_id (load_expenses w)) \<Longrightarrow> distinct (map exp_id (load_expenses (run cs w)))"
proof (induction cs arbitrary: w)
  case Nil
  then show ?case by simp
next
  case (Cons c cs)
  obtain now cmd where c: "c = (now, cmd)" by (cases c)
  from Cons.prems have "distinct (map exp_id (load_expenses (world_of (main now cmd w))))"
    by (rule main_keeps_distinct)
  then show ?case unfolding c by (simp add: Cons.IH)
qed

subsection \<open>Update with an invalid amount\<close>

text \<open>
  Claim C2. When the store holds a record with the given identifier and Update is
  called with an amount \<open>a\<close> for which \<open>a <= 0\<close> holds, the command prints the
  invalid-amount error and nothing else changes: the world after it is the world before
  it with that one line added to the output, so the expense file is as it was, whatever
  description and category came with the call.
\<close>

theorem update_invalid_amount_unchanged:
  assumes "upd_id args \<in> exp_id ` set (load_expenses w)"
    and "upd_amount args = Some a" and "float_le a (Finite 0)"
  shows "update_expense args w = Done (w\<lparr>stdout := stdout w @ [''Error: Amount must be positive.'']\<rparr>)
         \<and> expenses_json (world_of (update_expense args w)) = expenses_json w"
proof -
  obtain es' where "update_loop args (load_expenses w) = Invalid es'"
    using update_loop_Invalid [OF assms] by blast
  then show ?thesis
    by (simp add: update_expense_def print_def world_of_def)
qed

text \<open>The theorem at a store of two records, with a description and a category in the same call.\<close>

theorem update_invalid_amount_unchanged_witness:
  "update_expense \<lparr>upd_id = 2, upd_description = Some ''Novel'', upd_amount = Some (Finite (- 5)), upd_category = Some ''fun''\<rparr> two_records
     = Done (two_records\<lparr>stdout := [''Error: Amount must be positive.'']\<rparr>)
   \<and> expenses_json (world_of (update_expense \<lparr>upd_id = 2, upd_description = Some ''Novel'', upd_amount = Some (Finite (- 5)), upd_category = Some ''fun''\<rparr> two_records)) = Some [coffee, book]"
proof -
  let ?args = "\<lparr>upd_id = 2, upd_description = Some ''Novel'', upd_amount = Some (Finite (- 5)), upd_category = Some ''fun''\<rparr>"
  have h1: "upd_id ?args \<in> exp_id ` set (load_expenses two_records)"
    by (simp add: two_records_def load_expenses_def book_def)
  have h2: "upd_amount ?args = Some (Finite (- 5))" by simp
  have h3: "float_le (Finite (- 5)) (Finite 0)" by (simp add: float_le_def float_key_def)
  have st: "stdout two_records = []" "expenses_json two_records = Some [coffee, book]"
    by (simp_all add: two_records_def)
  from update_invalid_amount_unchanged [OF h1 h2 h3] show ?thesis
    by (simp add: st)
qed

subsection \<open>Update and Delete on an identifier that is not in the store\<close>

text \<open>
  Claim C6. When no record of the store has the identifier, both Delete and Update
  print the not-found error and change nothing else: no file is written.
\<close>

theorem missing_id_not_found:
  assumes "i \<notin> exp_id ` set (load_expenses w)"
  shows "delete_expense i w
           = Done (w\<lparr>stdout := stdout w @ [''Error: Expense with ID '' @ str_int i @ '' not found.'']\<rparr>)
         \<and> (upd_id args = i \<longrightarrow>
              update_expense args w
                = Done (w\<lparr>stdout := stdout w @ [''Error: Expense with ID '' @ str_int i @ '' not found.'']\<rparr>))"
proof -
  have "filter (\<lambda>e. exp_id e \<noteq> i) (load_expenses w) = load_expenses w"
    using assms by (auto simp: filter_id_conv)
  then have del: "delete_expense i w
           = Done (w\<lparr>stdout := stdout w @ [''Error: Expense with ID '' @ str_int i @ '' not found.'']\<rparr>)"
    by (simp add: delete_expense_def print_def)
  have "update_expense args w
          = Done (w\<lparr>stdout := stdout w @ [''Error: Expense with ID '' @ str_int i @ '' not found.'']\<rparr>)"
    if "upd_id args = i"
    using that assms by (simp add: update_expense_def update_loop_NoMatch print_def)
  with del show ?thesis by blast
qed

text \<open>The theorem at a store of two records and the absent identifier 7.\<close>

theorem missing_id_not_found_witness:
  "delete_expense 7 two_records = Done (two_records\<lparr>stdout := [''Error: Expense with ID 7 not found.'']\<rparr>)
   \<and> update_expense \<lparr>upd_id = 7, upd_description = Some ''Novel'', upd_amount = Some (Finite 3), upd_category = None\<rparr> two_records
       = Done (two_records\<lparr>stdout := [''Error: Expense with ID 7 not found.'']\<rparr>)"
proof -
  let ?args = "\<lparr>upd_id = 7, upd_description = Some ''Novel'', upd_amount = Some (Finite 3), upd_category = None\<rparr>"
  have h: "7 \<notin> exp_id ` set (load_expenses two_records)"
    by (simp add: two_records_def load_expenses_def coffee_def book_def)
  have s: "str_int 7 = ''7''" by code_simp
  have st: "stdout two_records = []" by (simp add: two_records_def)
  from missing_id_not_found [OF h, of ?args] show ?thesis
    by (simp add: s st)
qed

subsection \<open>Amounts that are not strictly positive\<close>

text \<open>
  Claim C5, amended. For an amount \<open>a\<close> with \<open>a <= 0\<close>: Add prints its invalid-amount error,
  SetBudget prints its invalid-amount error, and Update with that amount prints the
  invalid-amount error when a record has the identifier and the not-found error when
  none has. In every case the world after the command is the world before it with that
  one line printed: neither file is written.
\<close>

theorem nonpositive_amount_rejected:
  assumes "float_le a (Finite 0)"
  shows "(add_amount aargs = a \<longrightarrow>
            add_expense now aargs w
              = Done (w\<lparr>stdout := stdout w @ [''Error: Amount must be a positive number.'']\<rparr>))
       \<and> set_budget m a w = Done (w\<lparr>stdout := stdout w @ [''Error: Budget amount must be positive.'']\<rparr>)
       \<and> (upd_amount uargs = Some a \<longrightarrow>
            update_expense uargs w
              = Done (w\<lparr>stdout := stdout w @
                        [if upd_id uargs \<in> exp_id ` set (load_expenses w)
                         then ''Error: Amount must be positive.''
                         else ''Error: Expense with ID '' @ str_int (upd_id uargs) @ '' not found.'']\<rparr>))"
proof -
  have add: "add_expense now aargs w
               = Done (w\<lparr>stdout := stdout w @ [''Error: Amount must be a positive number.'']\<rparr>)"
    if "add_amount aargs = a"
    using that assms by (simp add: add_expense_def print_def)
  have bud: "set_budget m a w = Done (w\<lparr>stdout := stdout w @ [''Error: Budget amount must be positive.'']\<rparr>)"
    using assms by (simp add: set_budget_def print_def)
  have upd: "update_expense uargs w
              = Done (w\<lparr>stdout := stdout w @
                        [if upd_id uargs \<in> exp_id ` set (load_expenses w)
                         then ''Error: Amount must be positive.''
                         else ''Error: Expense with ID '' @ str_int (upd_id uargs) @ '' not found.'']\<rparr>)"
    if am: "upd_amount uargs = Some a"
  proof (cases "upd_id uargs \<in> exp_id ` set (load_expenses w)")
    case True
    then obtain es' where "update_loop uargs (load_expenses w) = Invalid es'"
      using update_loop_Invalid [OF _ am assms] by blast
    with True show ?thesis by (simp add: update_expense_def print_def)
  next
    case False
    then show ?thesis by (simp add: update_expense_def update_loop_NoMatch print_def)
  qed
  from add bud upd show ?thesis by blast
qed

text \<open>The theorem at the amount zero, on a store that holds the identifier.\<close>

theorem nonpositive_amount_rejected_witness:
  "add_expense \<lparr>year = 2024, month = 6, day = 15\<rparr>
       \<lparr>add_description = ''Tea'', add_amount = Finite 0, add_category = None\<rparr> two_records
     = Done (two_records\<lparr>stdout := [''Error: Amount must be a positive number.'']\<rparr>)
   \<and> set_budget 6 (Finite 0) two_records = Done (two_records\<lparr>stdout := [''Error: Budget amount must be positive.'']\<rparr>)
   \<and> update_expense \<lparr>upd_id = 1, upd_description = None, upd_amount = Some (Finite 0), upd_category = None\<rparr> two_records
     = Done (two_records\<lparr>stdout := [''Error: Amount must be positive.'']\<rparr>)"
proof -
  have h: "float_le (Finite 0) (Finite 0)" by (simp add: float_le_def float_key_def)
  have st: "stdout two_records = []" by (simp add: two_records_def)
  have mem: "1 \<in> exp_id ` set (load_expenses two_records)"
    by (simp add: two_records_def load_expenses_def coffee_def)
  from nonpositive_amount_rejected [OF h,
      of "\<lparr>add_description = ''Tea'', add_amount = Finite 0, add_category = None\<rparr>"
         "\<lparr>year = 2024, month = 6, day = 15\<rparr>" two_records 6
         "\<lparr>upd_id = 1, upd_description = None, upd_amount = Some (Finite 0), upd_category = None\<rparr>"]
  show ?thesis by (simp add: st mem)
qed

text \<open>
  The claim as stated fails for Update when no record has the identifier: with the
  amount \<open>-5\<close> and the absent identifier 7 the command reports not-found, not the
  invalid amount.
\<close>

theorem update_missing_id_reports_not_found_counterexample:
  "update_expense \<lparr>upd_id = 7, upd_description = None, upd_amount = Some (Finite (- 5)), upd_category = None\<rparr> two_records
     = Done (two_records\<lparr>stdout := [''Error: Expense with ID 7 not found.'']\<rparr>)
   \<and> update_expense \<lparr>upd_id = 7, upd_description = None, upd_amount = Some (Finite (- 5)), upd_category = None\<rparr> two_records
     \<noteq> Done (two_records\<lparr>stdout := [''Error: Amount must be positive.'']\<rparr>)"
proof -
  have s: "str_int 7 = ''7''" by code_simp
  have "update_expense \<lparr>upd_id = 7, upd_description = None, upd_amount = Some (Finite (- 5)), upd_category = None\<rparr> two_records
     = Done (two_records\<lparr>stdout := [''Error: Expense with ID 7 not found.'']\<rparr>)"
    by (simp add: update_expense_def two_records_def load_expenses_def coffee_def book_def cons_scan_def print_def s)
  then show ?thesis by (simp add: two_records_def)
qed

subsection \<open>What a successful Update leaves alone\<close>

text \<open>
  Claim C9. Whatever Update is asked to do, the stored list after it has the same
  identifiers and the same dates in the same order as before, and every record whose
  identifier differs from the given one is exactly the record that stood at that
  position before. (An Update that fails stores nothing, so this covers the successful
  ones and the others alike.)
\<close>

theorem update_touches_one_record:
  "map exp_id (load_expenses (world_of (update_expense args w))) = map exp_id (load_expenses w)
   \<and> map date (load_expenses (world_of (update_expense args w))) = map date (load_expenses w)
   \<and> (\<forall>j < length (load_expenses w).
         exp_id (load_expenses w ! j) \<noteq> upd_id args \<longrightarrow>
         load_expenses (world_of (update_expense args w)) ! j = load_expenses w ! j)"
proof (cases "update_loop args (load_expenses w)")
  case (Updated es')
  then have l: "load_expenses (world_of (update_expense args w)) = es'"
    by (simp add: load_after_update)
  show ?thesis
    unfolding l using update_loop_Updated_ids [OF Updated] update_loop_Updated_others [OF Updated]
    by simp
qed (simp_all add: load_after_update)

text \<open>The theorem at a store of two records, updating every field of the second.\<close>

theorem update_touches_one_record_witness:
  "map exp_id (load_expenses (world_of (update_expense
       \<lparr>upd_id = 2, upd_description = Some ''Novel'', upd_amount = Some (Finite 25), upd_category = Some ''fun''\<rparr> two_records)))
     = [1, 2]
   \<and> map date (load_expenses (world_of (update_expense
       \<lparr>upd_id = 2, upd_description = Some ''Novel'', upd_amount = Some (Finite 25), upd_category = Some ''fun''\<rparr> two_records)))
     = [''2024-06-15'', ''2024-06-20'']
   \<and> load_expenses (world_of (update_expense
       \<lparr>upd_id = 2, upd_description = Some ''Novel'', upd_amount = Some (Finite 25), upd_category = Some ''fun''\<rparr> two_records)) ! 0
     = coffee"
proof -
  let ?args = "\<lparr>upd_id = 2, upd_description = Some ''Novel'', upd_amount = Some (Finite 25), upd_category = Some ''fun''\<rparr>"
  have l: "load_expenses two_records = [coffee, book]"
    by (simp add: two_records_def load_expenses_def)
  have h: "0 < length (load_expenses two_records)" "exp_id (load_expenses two_records ! 0) \<noteq> upd_id ?args"
    by (simp_all add: l coffee_def)
  have m: "map exp_id [coffee, book] = [1, 2]" "map date [coffee, book] = [''2024-06-15'', ''2024-06-20'']"
    by (simp_all add: coffee_def book_def)
  from update_touches_one_record [of ?args two_records] h show ?thesis
    unfolding l m by simp
qed

subsection \<open>Update with an empty description or category\<close>

text \<open>
  Claim C10. An Update called with the empty string as description (or as category)
  is the same command as one called without that argument; in particular it leaves that
  field of every record as it was. And no Update, whatever its arguments, turns a
  description or a category that was not empty into the empty string.
\<close>

theorem update_empty_text_keeps_field:
  "update_expense (args\<lparr>upd_description := Some ''''\<rparr>) w = update_expense (args\<lparr>upd_description := None\<rparr>) w
   \<and> update_expense (args\<lparr>upd_category := Some ''''\<rparr>) w = update_expense (args\<lparr>upd_category := None\<rparr>) w
   \<and> (\<forall>j < length (load_expenses w).
         (upd_description args = Some '''' \<longrightarrow>
            description (load_expenses (world_of (update_expense args w)) ! j) = description (load_expenses w ! j))
       \<and> (upd_category args = Some '''' \<longrightarrow>
            category (load_expenses (world_of (update_expense args w)) ! j) = category (load_expenses w ! j))
       \<and> (description (load_expenses (world_of (update_expense args w)) ! j) = '''' \<longrightarrow>
            description (load_expenses w ! j) = '''')
       \<and> (get_category (load_expenses (world_of (update_expense args w)) ! j) = '''' \<longrightarrow>
            get_category (load_expenses w ! j) = ''''))"
proof (intro conjI)
  show "update_expense (args\<lparr>upd_description := Some ''''\<rparr>) w = update_expense (args\<lparr>upd_description := None\<rparr>) w"
    by (rule update_expense_empty_description)
  show "update_expense (args\<lparr>upd_category := Some ''''\<rparr>) w = update_expense (args\<lparr>upd_category := None\<rparr>) w"
    by (rule update_expense_empty_category)
  show "\<forall>j < length (load_expenses w).
         (upd_description args = Some '''' \<longrightarrow>
            description (load_expenses (world_of (update_expense args w)) ! j) = description (load_expenses w ! j))
       \<and> (upd_category args = Some '''' \<longrightarrow>
            category (load_expenses (world_of (update_expense args w)) ! j) = category (load_expenses w ! j))
       \<and> (description (load_expenses (world_of (update_expense args w)) ! j) = '''' \<longrightarrow>
            description (load_expenses w ! j) = '''')
       \<and> (get_category (load_expenses (world_of (update_expense args w)) ! j) = '''' \<longrightarrow>
            get_category (load_expenses w ! j) = '''')"
    using update_expense_fields by (intro allI impI)
qed

text \<open>The theorem at a store of two records, with both texts empty in the call.\<close>

theorem update_empty_text_keeps_field_witness:
  "description (load_expenses (world_of (update_expense
       \<lparr>upd_id = 1, upd_description = Some [], upd_amount = Some (Finite 5), upd_category = Some []\<rparr> two_records)) ! 0)
     = ''Coffee''
   \<and> category (load_expenses (world_of (update_expense
       \<lparr>upd_id = 1, upd_description = Some [], upd_amount = Some (Finite 5), upd_category = Some []\<rparr> two_records)) ! 0)
     = Some ''food''"
proof -
  let ?args = "\<lparr>upd_id = 1, upd_description = Some [], upd_amount = Some (Finite 5), upd_category = Some []\<rparr>"
  have l: "load_expenses two_records = [coffee, book]"
    by (simp add: two_records_def load_expenses_def)
  have h: "0 < length (load_expenses two_records)" "upd_description ?args = Some []" "upd_category ?args = Some []"
    by (simp_all add: l)
  have f: "description ([coffee, book] ! 0) = ''Coffee''" "category ([coffee, book] ! 0) = Some ''food''"
    by (simp_all add: coffee_def)
  from update_empty_text_keeps_field [of ?args two_records, THEN conjunct2, THEN conjunct2, rule_format, of 0] h
  show ?thesis
    unfolding l f by simp
qed

subsection \<open>List\<close>

text \<open>
  Claim C7. For a non-empty filter text \<open>c\<close>, List prints the header, the rule and one
  row for each record whose category (the empty text when the record has none) equals
  \<open>c\<close> exactly, in the order of the store; without a filter it prints a row for every
  record in the order of the store. When there is no record to print, the only line is
  \<open>No expenses found.\<close> The selected records are a subsequence of the store, they are
  exactly the stored records with that category, and a record with an empty category is
  never among them.
\<close>

theorem list_shows_matching_records:
  assumes "c \<noteq> ''''"
  shows "list_expenses (Some c) w =
           Done (w\<lparr>stdout := stdout w @
                   (if filter (\<lambda>e. get_category e = c) (load_expenses w) = [] then [''No expenses found.'']
                    else [''ID  Date        Description      Amount   Category'', replicate 50 CHR ''-'']
                         @ map list_row (filter (\<lambda>e. get_category e = c) (load_expenses w)))\<rparr>)
       \<and> list_expenses None w =
           Done (w\<lparr>stdout := stdout w @
                   (if load_expenses w = [] then [''No expenses found.'']
                    else [''ID  Date        Description      Amount   Category'', replicate 50 CHR ''-'']
                         @ map list_row (load_expenses w))\<rparr>)
       \<and> subseq (filter (\<lambda>e. get_category e = c) (load_expenses w)) (load_expenses w)
       \<and> (\<forall>e \<in> set (load_expenses w).
             e \<in> set (filter (\<lambda>e. get_category e = c) (load_expenses w)) \<longleftrightarrow> get_category e = c)
       \<and> (\<forall>e \<in> set (load_expenses w).
             get_category e = '''' \<longrightarrow> e \<notin> set (filter (\<lambda>e. get_category e = c) (load_expenses w)))"
proof (intro conjI)
  show "list_expenses (Some c) w =
           Done (w\<lparr>stdout := stdout w @
                   (if filter (\<lambda>e. get_category e = c) (load_expenses w) = [] then [''No expenses found.'']
                    else [''ID  Date        Description      Amount   Category'', replicate 50 CHR ''-'']
                         @ map list_row (filter (\<lambda>e. get_category e = c) (load_expenses w)))\<rparr>)"
    unfolding list_expenses_report select_category_filtered [OF assms] by (rule refl)
  show "list_expenses None w =
           Done (w\<lparr>stdout := stdout w @
                   (if load_expenses w = [] then [''No expenses found.'']
                    else [''ID  Date        Description      Amount   Category'', replicate 50 CHR ''-'']
                         @ map list_row (load_expenses w))\<rparr>)"
  proof -
    have n: "select_category None (load_expenses w) = load_expenses w"
      by (simp add: select_category_unfiltered)
    show ?thesis unfolding list_expenses_report n by (rule refl)
  qed
  show "subseq (filter (\<lambda>e. get_category e = c) (load_expenses w)) (load_expenses w)"
    by (rule subseq_filter_left)
  show "\<forall>e \<in> set (load_expenses w).
             e \<in> set (filter (\<lambda>e. get_category e = c) (load_expenses w)) \<longleftrightarrow> get_category e = c"
    by simp
  show "\<forall>e \<in> set (load_expenses w).
             get_category e = '''' \<longrightarrow> e \<notin> set (filter (\<lambda>e. get_category e = c) (load_expenses w))"
    using assms by auto
qed

text \<open>The theorem at a store of two records and the filter \<open>food\<close>.\<close>

theorem list_shows_matching_records_witness:
  "list_expenses (Some ''food'') two_records =
     Done (two_records\<lparr>stdout :=
       [''ID  Date        Description      Amount   Category'',
        ''--------------------------------------------------'',
        ''1   2024-06-15  Coffee         $4.50    food'']\<rparr>)
   \<and> list_expenses None two_records =
     Done (two_records\<lparr>stdout :=
       [''ID  Date        Description      Amount   Category'',
        ''--------------------------------------------------'',
        ''1   2024-06-15  Coffee         $4.50    food'',
        ''2   2024-06-20  Book           $20.00   '']\<rparr>)"
proof -
  have h: "''food'' \<noteq> ''''" by simp
  have l: "load_expenses two_records = [coffee, book]"
    by (simp add: two_records_def load_expenses_def)
  have st: "stdout two_records = []" by (simp add: two_records_def)
  have f: "filter (\<lambda>e. get_category e = ''food'') [coffee, book] = [coffee]"
    by (simp add: coffee_def book_def get_category_def)
  have r: "list_row coffee = ''1   2024-06-15  Coffee         $4.50    food''"
    "list_row book = ''2   2024-06-20  Book           $20.00   ''"
    "replicate 50 CHR ''-'' = ''--------------------------------------------------''"
    by code_simp+
  from list_shows_matching_records [OF h, of two_records] show ?thesis
    unfolding l f by (simp add: st r)
qed

subsection \<open>Export\<close>

lemma export_csv_empty:
  "select_category cat (load_expenses w) = [] \<Longrightarrow>
     export_csv filename cat w = Done (w\<lparr>stdout := stdout w @ [''No expenses to export.'']\<rparr>)"
  by (simp add: export_csv_def print_def)

lemma export_csv_written:
  assumes "select_category cat (load_expenses w) \<noteq> []" and "filename \<noteq> []" and "filename \<notin> unwritable w"
  shows "export_csv filename cat w =
           Done (w\<lparr>files := (files w)(filename \<mapsto>
                     [StrCell ''id'', StrCell ''date'', StrCell ''description'', StrCell ''amount'', StrCell ''category'']
                     # map (\<lambda>e. [IntCell (exp_id e), StrCell (date e), StrCell (description e), NumCell (amount e),
                                  StrCell (case category e of None \<Rightarrow> [] | Some c \<Rightarrow> c)])
                         (select_category cat (load_expenses w))),
                   stdout := stdout w @ [''Exported expenses to '' @ filename]\<rparr>)"
proof -
  have r: "csv_row = (\<lambda>e. [IntCell (exp_id e), StrCell (date e), StrCell (description e), NumCell (amount e),
                           StrCell (case category e of None \<Rightarrow> [] | Some c \<Rightarrow> c)])"
    by (rule ext) (simp add: csv_row_def get_category_def)
  show ?thesis
    using assms unfolding r [symmetric]
    by (simp add: export_csv_def open_for_writing_def print_def Let_def csv_header_def)
qed

text \<open>When the file cannot be opened the command ends there: nothing is written or printed.\<close>

lemma export_csv_unopened:
  assumes "select_category cat (load_expenses w) \<noteq> []" and "filename = [] \<or> filename \<in> unwritable w"
  shows "export_csv filename cat w = Crashed OSError w"
  using assms by (auto simp: export_csv_def open_for_writing_def Let_def)

lemma select_category_get:
  "c \<noteq> [] \<Longrightarrow>
     select_category (Some c) es = filter (\<lambda>e. (case category e of None \<Rightarrow> [] | Some k \<Rightarrow> k) = c) es"
  by (simp add: select_category_def truthy_def get_category_def)

text \<open>
  Claim C8. With the records selected as List selects them: when none is selected,
  ExportCSV prints \<open>No expenses to export.\<close> and that is all, so no file is created and
  none is overwritten. When some are selected and the file can be opened for writing, the
  file of the given name holds the header row \<open>id, date, description, amount, category\<close>
  and then, for each selected record in the order of the store, the row of its
  identifier, date, description, amount and category (the empty text when the record has
  none). When some are selected and the file cannot be opened, the command ends with the
  uncaught error and nothing is written or printed.
\<close>

theorem export_csv_rows:
  "(select_category cat (load_expenses w) = [] \<longrightarrow>
      export_csv filename cat w = Done (w\<lparr>stdout := stdout w @ [''No expenses to export.'']\<rparr>)
      \<and> files (world_of (export_csv filename cat w)) = files w)
   \<and> (select_category cat (load_expenses w) \<noteq> [] \<and> filename \<noteq> [] \<and> filename \<notin> unwritable w \<longrightarrow>
      export_csv filename cat w =
        Done (w\<lparr>files := (files w)(filename \<mapsto>
                  [StrCell ''id'', StrCell ''date'', StrCell ''description'', StrCell ''amount'', StrCell ''category'']
                  # map (\<lambda>e. [IntCell (exp_id e), StrCell (date e), StrCell (description e), NumCell (amount e),
                               StrCell (case category e of None \<Rightarrow> [] | Some c \<Rightarrow> c)])
                      (select_category cat (load_expenses w))),
                stdout := stdout w @ [''Exported expenses to '' @ filename]\<rparr>))
   \<and> (select_category cat (load_expenses w) \<noteq> [] \<and> (filename = [] \<or> filename \<in> unwritable w) \<longrightarrow>
      export_csv filename cat w = Crashed OSError w)
   \<and> (cat = None \<or> cat = Some [] \<longrightarrow> select_category cat (load_expenses w) = load_expenses w)
   \<and> (\<forall>c. cat = Some c \<and> c \<noteq> [] \<longrightarrow>
         select_category cat (load_expenses w)
           = filter (\<lambda>e. (case category e of None \<Rightarrow> [] | Some k \<Rightarrow> k) = c) (load_expenses w))"
proof (intro conjI impI allI)
  assume e: "select_category cat (load_expenses w) = []"
  then show "export_csv filename cat w = Done (w\<lparr>stdout := stdout w @ [''No expenses to export.'']\<rparr>)"
    by (rule export_csv_empty)
  then show "files (world_of (export_csv filename cat w)) = files w"
    by simp
next
  assume "select_category cat (load_expenses w) \<noteq> [] \<and> filename \<noteq> [] \<and> filename \<notin> unwritable w"
  then show "export_csv filename cat w =
        Done (w\<lparr>files := (files w)(filename \<mapsto>
                  [StrCell ''id'', StrCell ''date'', StrCell ''description'', StrCell ''amount'', StrCell ''category'']
                  # map (\<lambda>e. [IntCell (exp_id e), StrCell (date e), StrCell (description e), NumCell (amount e),
                               StrCell (case category e of None \<Rightarrow> [] | Some c \<Rightarrow> c)])
                      (select_category cat (load_expenses w))),
                stdout := stdout w @ [''Exported expenses to '' @ filename]\<rparr>)"
    by (simp add: export_csv_written)
next
  assume "select_category cat (load_expenses w) \<noteq> [] \<and> (filename = [] \<or> filename \<in> unwritable w)"
  then show "export_csv filename cat w = Crashed OSError w"
    by (simp add: export_csv_unopened)
next
  assume "cat = None \<or> cat = Some []"
  then show "select_category cat (load_expenses w) = load_expenses w"
    by (rule select_category_unfiltered)
next
  fix c assume "cat = Some c \<and> c \<noteq> []"
  then show "select_category cat (load_expenses w)
           = filter (\<lambda>e. (case category e of None \<Rightarrow> [] | Some k \<Rightarrow> k) = c) (load_expenses w)"
    by (simp add: select_category_get)
qed

text \<open>
  The theorem at a store of two records: a filter that selects nothing, no filter, the
  filter \<open>food\<close>, a file in a directory that does not exist, and the empty name.
\<close>

theorem export_csv_rows_witness:
  "export_csv ''out.csv'' (Some ''travel'') two_records
     = Done (two_records\<lparr>stdout := [''No expenses to export.'']\<rparr>)
   \<and> export_csv ''out.csv'' None two_records
     = Done (two_records\<lparr>files := (files two_records)(''out.csv'' \<mapsto>
               [[StrCell ''id'', StrCell ''date'', StrCell ''description'', StrCell ''amount'', StrCell ''category''],
                [IntCell 1, StrCell ''2024-06-15'', StrCell ''Coffee'', NumCell (Finite (9 / 2)), StrCell ''food''],
                [IntCell 2, StrCell ''2024-06-20'', StrCell ''Book'', NumCell (Finite 20), StrCell []]]),
             stdout := [''Exported expenses to out.csv'']\<rparr>)
   \<and> export_csv ''out.csv'' (Some ''food'') two_records
     = Done (two_records\<lparr>files := (files two_records)(''out.csv'' \<mapsto>
               [[StrCell ''id'', StrCell ''date'', StrCell ''description'', StrCell ''amount'', StrCell ''category''],
                [IntCell 1, StrCell ''2024-06-15'', StrCell ''Coffee'', NumCell (Finite (9 / 2)), StrCell ''food'']]),
             stdout := [''Exported expenses to out.csv'']\<rparr>)
   \<and> export_csv ''/no/such/dir/out.csv'' None two_records = Crashed OSError two_records
   \<and> export_csv [] None two_records = Crashed OSError two_records"
proof -
  have l: "load_expenses two_records = [coffee, book]"
    by (simp add: two_records_def load_expenses_def)
  have st: "stdout two_records = []" by (simp add: two_records_def)
  have o: "''out.csv'' \<noteq> []" "''out.csv'' \<notin> unwritable two_records"
    by (simp_all add: two_records_def)
  have f: "filter (\<lambda>e. (case category e of None \<Rightarrow> [] | Some k \<Rightarrow> k) = ''travel'') [coffee, book] = []"
    "filter (\<lambda>e. (case category e of None \<Rightarrow> [] | Some k \<Rightarrow> k) = ''food'') [coffee, book] = [coffee]"
    by (simp_all add: coffee_def book_def)
  have rows: "exp_id coffee = 1" "date coffee = ''2024-06-15''" "description coffee = ''Coffee''"
    "amount coffee = Finite (9 / 2)" "category coffee = Some ''food''"
    "exp_id book = 2" "date book = ''2024-06-20''" "description book = ''Book''"
    "amount book = Finite 20" "category book = Some []"
    by (simp_all add: coffee_def book_def)
  note T1 = export_csv_rows [of "Some ''travel''" two_records "''out.csv''"]
  note T2 = export_csv_rows [of None two_records "''out.csv''"]
  note T3 = export_csv_rows [of "Some ''food''" two_records "''out.csv''"]
  have e1: "select_category (Some ''travel'') (load_expenses two_records) = []"
    using T1 [THEN conjunct2, THEN conjunct2, THEN conjunct2, THEN conjunct2, rule_format, of "''travel''"]
    unfolding l f by simp
  have e2: "select_category None (load_expenses two_records) = [coffee, book]"
    using T2 [THEN conjunct2, THEN conjunct2, THEN conjunct2, THEN conjunct1] unfolding l by simp
  have e3: "select_category (Some ''food'') (load_expenses two_records) = [coffee]"
    using T3 [THEN conjunct2, THEN conjunct2, THEN conjunct2, THEN conjunct2, rule_format, of "''food''"]
    unfolding l f by simp
  from T1 e1 have a: "export_csv ''out.csv'' (Some ''travel'') two_records
     = Done (two_records\<lparr>stdout := [''No expenses to export.'']\<rparr>)"
    by (simp add: st)
  from T2 o have b: "export_csv ''out.csv'' None two_records
     = Done (two_records\<lparr>files := (files two_records)(''out.csv'' \<mapsto>
               [[StrCell ''id'', StrCell ''date'', StrCell ''description'', StrCell ''amount'', StrCell ''category''],
                [IntCell 1, StrCell ''2024-06-15'', StrCell ''Coffee'', NumCell (Finite (9 / 2)), StrCell ''food''],
                [IntCell 2, StrCell ''2024-06-20'', StrCell ''Book'', NumCell (Finite 20), StrCell []]]),
             stdout := [''Exported expenses to out.csv'']\<rparr>)"
    unfolding e2 by (simp add: st rows)
  from T3 o have c: "export_csv ''out.csv'' (Some ''food'') two_records
     = Done (two_records\<lparr>files := (files two_records)(''out.csv'' \<mapsto>
               [[StrCell ''id'', StrCell ''date'', StrCell ''description'', StrCell ''amount'', StrCell ''category''],
                [IntCell 1, StrCell ''2024-06-15'', StrCell ''Coffee'', NumCell (Finite (9 / 2)), StrCell ''food'']]),
             stdout := [''Exported expenses to out.csv'']\<rparr>)"
    unfolding e3 by (simp add: st rows)
  have u: "''/no/such/dir/out.csv'' \<in> unwritable two_records"
    by (simp add: two_records_def)
  from export_csv_rows [of None two_records "''/no/such/dir/out.csv''"] e2 u
  have d: "export_csv ''/no/such/dir/out.csv'' None two_records = Crashed OSError two_records"
    by simp
  from export_csv_rows [of None two_records "[]"] e2
  have e: "export_csv [] None two_records = Crashed OSError two_records"
    by simp
  from a b c d e show ?thesis by (intro conjI)
qed

subsection \<open>Summary\<close>



subsection \<open>The budget check at its two call sites\<close>




subsection \<open>Identifiers assigned by Add\<close>

text \<open>
  Claim C3, amended. In every state of the store, the identifier that Add assigns is one
  more than the greatest identifier in the store, or 1 when the store is empty. Hence,
  after every sequence of commands, the identifier that an Add assigns is strictly greater
  than the identifier of every record then in the store and so occurs nowhere else in the
  store, the new record goes to the end of the stored list, and identifiers that are
  pairwise different stay pairwise different. An identifier freed by Delete is not
  assigned again, whatever commands follow, as long as a record with a greater identifier
  is in the store.
\<close>

theorem add_assigns_next_id:
  "generate_new_id es = (if es = [] then 1 else Max (exp_id ` set es) + 1)
   \<and> (\<forall>e \<in> set es. exp_id e < generate_new_id es)
   \<and> generate_new_id es \<notin> exp_id ` set es
   \<and> (\<not> float_le (add_amount args) (Finite 0) \<longrightarrow>
        load_expenses (world_of (add_expense now args (run cs w))) =
          load_expenses (run cs w) @
            [\<lparr>exp_id = generate_new_id (load_expenses (run cs w)),
              date = strftime_ymd now,
              description = add_description args,
              amount = round2 (add_amount args),
              category = Some (case add_category args of None \<Rightarrow> [] | Some c \<Rightarrow> c)\<rparr>])
   \<and> (distinct (map exp_id (load_expenses w)) \<longrightarrow> distinct (map exp_id (load_expenses (run cs w))))
   \<and> (\<forall>e \<in> set (load_expenses (run cs (world_of (delete_expense d w)))).
        d < exp_id e \<longrightarrow>
        generate_new_id (load_expenses (run cs (world_of (delete_expense d w)))) \<noteq> d)"
proof (intro conjI ballI impI)
  show "generate_new_id es = (if es = [] then 1 else Max (exp_id ` set es) + 1)"
    by (rule generate_new_id_Max)
  show "exp_id e < generate_new_id es" if "e \<in> set es" for e
    using that by (rule generate_new_id_greater)
  show "generate_new_id es \<notin> exp_id ` set es"
    using generate_new_id_greater by fastforce
  show "load_expenses (world_of (add_expense now args (run cs w))) =
          load_expenses (run cs w) @
            [\<lparr>exp_id = generate_new_id (load_expenses (run cs w)),
              date = strftime_ymd now,
              description = add_description args,
              amount = round2 (add_amount args),
              category = Some (case add_category args of None \<Rightarrow> [] | Some c \<Rightarrow> c)\<rparr>]"
    if "\<not> float_le (add_amount args) (Finite 0)"
    using that by (simp add: load_after_add)
  show "distinct (map exp_id (load_expenses (run cs w)))"
    if "distinct (map exp_id (load_expenses w))"
    using that by (rule run_keeps_distinct)
  show "generate_new_id (load_expenses (run cs (world_of (delete_expense d w)))) \<noteq> d"
    if "e \<in> set (load_expenses (run cs (world_of (delete_expense d w))))" and "d < exp_id e" for e
    using generate_new_id_greater [OF that(1)] that(2) by simp
qed

text \<open>
  The theorem at a store with the identifiers 1 and 2: the next identifier is 3; after
  the deletion of record 1 the store holds record 2, an Add puts a record with the
  identifier 3 behind it, and the identifier 1 is not assigned.
\<close>

theorem add_assigns_next_id_witness:
  "generate_new_id [coffee, book] = 3
   \<and> exp_id book < generate_new_id [coffee, book]
   \<and> generate_new_id [coffee, book] \<notin> exp_id ` set [coffee, book]
   \<and> load_expenses (world_of (add_expense june_21 tea (run [(june_21, Delete 1)] two_records)))
       = [book, \<lparr>exp_id = 3, date = ''2024-06-21'', description = ''Tea'', amount = Finite 3, category = Some []\<rparr>]
   \<and> distinct (map exp_id (load_expenses (run [(june_21, Delete 1)] two_records)))
   \<and> generate_new_id (load_expenses (run [(june_21, Delete 1)] (world_of (delete_expense 1 two_records)))) \<noteq> 1"
proof -
  have l: "load_expenses two_records = [coffee, book]"
    by (simp add: two_records_def load_expenses_def)
  have r: "load_expenses (run [(june_21, Delete 1)] two_records) = [book]"
    "load_expenses (run [(june_21, Delete 1)] (world_of (delete_expense 1 two_records))) = [book]"
    by (simp_all add: load_after_delete l coffee_def book_def)
  have h1: "book \<in> set [coffee, book]" by simp
  have h2: "\<not> float_le (add_amount tea) (Finite 0)"
    by (simp add: tea_def float_le_def float_key_def)
  have h3: "distinct (map exp_id (load_expenses two_records))"
    by (simp add: l coffee_def book_def)
  have h4: "book \<in> set [book]" "1 < exp_id book"
    by (simp_all add: book_def)
  have v: "strftime_ymd june_21 = ''2024-06-21''" "round2 (Finite 3) = Finite 3"
    by code_simp+
  have m: "Max (exp_id ` set [coffee, book]) + 1 = 3" "generate_new_id [book] = 3"
    by (simp_all add: coffee_def book_def generate_new_id_def)
  have t: "add_description tea = ''Tea''" "add_amount tea = Finite 3" "add_category tea = None"
    by (simp_all add: tea_def)
  note T = add_assigns_next_id [of "[coffee, book]" tea june_21 "[(june_21, Delete 1)]" two_records 1]
  from T have a: "generate_new_id [coffee, book] = 3" using m by simp
  from T h1 have b: "exp_id book < generate_new_id [coffee, book]" by blast
  from T have b': "generate_new_id [coffee, book] \<notin> exp_id ` set [coffee, book]" by blast
  from T h2 have c: "load_expenses (world_of (add_expense june_21 tea (run [(june_21, Delete 1)] two_records)))
       = [book, \<lparr>exp_id = 3, date = ''2024-06-21'', description = ''Tea'', amount = Finite 3, category = Some []\<rparr>]"
    unfolding r m v t by simp
  from T h3 have d: "distinct (map exp_id (load_expenses (run [(june_21, Delete 1)] two_records)))"
    by blast
  from T h4 have e: "generate_new_id (load_expenses (run [(june_21, Delete 1)] (world_of (delete_expense 1 two_records)))) \<noteq> 1"
    unfolding r by blast
  from a b b' c d e show ?thesis by blast
qed

text \<open>
  The claim as stated says that a freed identifier is never reissued. From the empty
  store, two Adds, the deletion of record 2 and one more Add give the identifier 2 a
  second time.
\<close>

theorem deleted_maximum_is_reissued_counterexample:
  "stdout (run [(june_21, Add tea), (june_21, Add tea), (june_21, Delete 2), (june_21, Add tea)] empty_world)
     = [''Expense added successfully (ID: 1)'',
        ''Expense added successfully (ID: 2)'',
        ''Expense deleted successfully'',
        ''Expense added successfully (ID: 2)'']
   \<and> map exp_id (load_expenses (run [(june_21, Add tea), (june_21, Add tea), (june_21, Delete 2), (june_21, Add tea)] empty_world))
     = [1, 2]"
  by code_simp


end
